theory Spec2Isabelle
  imports Main "HOL-Library.Word"
begin

section \<open>Package retry: a round tripper that retries requests\<close>

text \<open>
  The package wraps a base \<open>http.RoundTripper\<close> and repeats the request until a
  retry check says stop, sleeping between attempts for the delay that an
  exponential backoff (the library type \<open>backoff.ExponentialBackOff\<close>) hands out.

  What lies outside the package is kept outside the model as well:
  \<^item> the base round tripper and a custom retry check are arbitrary Go code; they
    are functions that transform the environment (the \<open>world\<close> below);
  \<^item> \<open>NextBackOff\<close> is a library method with a pointer receiver. It is a
    parameter \<open>nb\<close> that takes the value of the receiver and the environment (it
    reads the clock) and gives the delay, the new value of the receiver and the
    new environment;
  \<^item> \<open>time.Duration\<close> is a signed 64-bit integer, and \<open>backoff.Stop\<close> is \<open>-1\<close>;
  \<^item> the request is handed to the base round tripper as it is. Its context, the
    cancellation signal, changes with time and is part of the environment.
\<close>

type_synonym Duration = "64 word"

definition Stop :: Duration where
  "Stop = - 1"

subsection \<open>The environment: clock, cancellation signal, collaborators' state\<close>

text \<open>
  \<open>now\<close> is the clock in nanoseconds. \<open>done_at\<close> is the instant at which the
  channel \<open>req.Context().Done()\<close> is closed (\<open>None\<close>: never) and \<open>ctx_error\<close> the
  error that \<open>req.Context().Err()\<close> reports from then on. \<open>picks\<close> holds the
  outcomes of the pseudo-random choice that a Go \<open>select\<close> makes when more than
  one of its cases can proceed (\<open>True\<close>: the timer case). \<open>env\<close> is whatever state
  the collaborators keep (captured variables of a closure, the network).
\<close>

record ('x, 'e) world =
  now :: int
  done_at :: "int option"
  ctx_error :: 'e
  picks :: "nat \<Rightarrow> bool"
  env :: 'x

definition ctx_Done :: "('x, 'e) world \<Rightarrow> bool" where
  "ctx_Done w = (case done_at w of None \<Rightarrow> False | Some c \<Rightarrow> c \<le> now w)"

definition ctx_Err :: "('x, 'e) world \<Rightarrow> 'e option" where
  "ctx_Err w = (if ctx_Done w then Some (ctx_error w) else None)"

text \<open>
  Lines 52 to 57 of \<open>retry.go\<close>: a timer of \<open>delay\<close> is started and a \<open>select\<close>
  waits for the timer's channel or for \<open>Done\<close>. A timer whose duration is zero
  or negative expires at once. The \<open>select\<close> blocks until the first instant at
  which a case can proceed; when only one can, that case is taken; when both
  can (the instants coincide, or the signal has fired already and the timer
  has no time to run), the choice is the next entry of \<open>picks\<close>.
\<close>

datatype fired = TimerC | DoneC

definition select :: "Duration \<Rightarrow> ('x, 'e) world \<Rightarrow> fired \<times> ('x, 'e) world" where
  "select delay w =
     (let expiry = now w + max 0 (sint delay) in
      case done_at w of
        None \<Rightarrow> (TimerC, w\<lparr>now := expiry\<rparr>)
      | Some c \<Rightarrow>
          if expiry < c then (TimerC, w\<lparr>now := expiry\<rparr>)
          else if c < expiry \<and> now w < expiry then (DoneC, w\<lparr>now := max c (now w)\<rparr>)
          else (if picks w 0 then TimerC else DoneC,
                w\<lparr>now := expiry, picks := (\<lambda>n. picks w (Suc n))\<rparr>))"

subsection \<open>The Transport and the state of a call\<close>

type_synonym ('q, 'r, 'x, 'e) RoundTripper =
  "'q \<Rightarrow> ('x, 'e) world \<Rightarrow> ('r option \<times> 'e option) \<times> ('x, 'e) world"

type_synonym ('r, 'x, 'e) RetryCheck =
  "'r option \<Rightarrow> 'e option \<Rightarrow> bool \<Rightarrow> ('x, 'e) world \<Rightarrow> ('e option \<times> bool) \<times> ('x, 'e) world"

type_synonym ('b, 'x, 'e) NextBackOff =
  "'b \<Rightarrow> ('x, 'e) world \<Rightarrow> (Duration \<times> 'b) \<times> ('x, 'e) world"

text \<open>
  The struct \<open>Transport\<close>. \<open>Backoff\<close> is a pointer: an address in the heap of
  backoff objects, or \<open>None\<close> for \<open>nil\<close>. The two other fields may be \<open>nil\<close> too.
\<close>

record ('q, 'r, 'x, 'e) Transport =
  Backoff :: "nat option"
  ShouldRetry :: "('r, 'x, 'e) RetryCheck option"
  Transport :: "('q, 'r, 'x, 'e) RoundTripper option"

text \<open>
  The events of a call, in the order in which the code performs them: the base
  round tripper is invoked, \<open>NextBackOff\<close> returns a delay, the retry check is
  invoked with \<open>lastAttempt\<close> and answers \<open>ok\<close>, a timer is started.
\<close>

datatype event =
    CallBase
  | CallNext Duration
  | CallCheck bool bool
  | StartTimer Duration

text \<open>
  \<open>heap\<close> holds the \<open>ExponentialBackOff\<close> objects, the address of an object
  being its index. \<open>trace\<close> is the list of events so far; the code does not
  have it, it is there to count invocations.
\<close>

record ('b, 'x, 'e) state =
  heap :: "'b list"
  world :: "('x, 'e) world"
  trace :: "event list"

datatype ('r, 'e) outcome = Return "'r option" "'e option" | Panic

subsection \<open>RoundTrip\<close>

text \<open>Lines 37 to 39: the retry check used when the field \<open>ShouldRetry\<close> is \<open>nil\<close>.\<close>

definition default_shouldRetry :: "('r, 'x, 'e) RetryCheck" where
  "default_shouldRetry res err lastAttempt w = ((err, err \<noteq> None \<and> \<not> lastAttempt), w)"

text \<open>Lines 37 to 43: the local variable \<open>shouldRetry\<close> after the \<open>if\<close>.\<close>

definition shouldRetry_of :: "('q, 'r, 'x, 'e) Transport \<Rightarrow> ('r, 'x, 'e) RetryCheck" where
  "shouldRetry_of t = (case ShouldRetry t of None \<Rightarrow> default_shouldRetry | Some f \<Rightarrow> f)"

text \<open>
  Lines 46 to 57, one pass through the body of the \<open>for\<close> loop. \<open>b\<close> is the
  address of the call's own copy of the backoff. The result is \<open>Some\<close> outcome
  when the pass leaves the function and \<open>None\<close> when the loop goes round again.
  Calling \<open>RoundTrip\<close> on a \<open>nil\<close> base round tripper panics. In Go \<open>b\<close> always
  points to an object; an address outside the heap is treated like a \<open>nil\<close>
  receiver, a panic where \<open>NextBackOff\<close> is called.
\<close>

definition attempt ::
  "('b, 'x, 'e) NextBackOff \<Rightarrow> ('r, 'x, 'e) RetryCheck \<Rightarrow> ('q, 'r, 'x, 'e) RoundTripper option \<Rightarrow>
   'q \<Rightarrow> nat \<Rightarrow> ('b, 'x, 'e) state \<Rightarrow> ('r, 'e) outcome option \<times> ('b, 'x, 'e) state" where
  "attempt nb shouldRetry base req b s =
     (case base of
        None \<Rightarrow> (Some Panic, s)
      | Some rt \<Rightarrow>
          (case rt req (world s) of ((res, err), w1) \<Rightarrow>
           if \<not> b < length (heap s)
           then (Some Panic, s\<lparr>world := w1, trace := trace s @ [CallBase]\<rparr>)
           else
           case nb (heap s ! b) w1 of ((delay, bo), w2) \<Rightarrow>
           let lastAttempt = (delay = Stop) in
           case shouldRetry res err lastAttempt w2 of ((err', ok), w3) \<Rightarrow>
           let s3 = s\<lparr>heap := (heap s)[b := bo], world := w3,
                      trace := trace s @ [CallBase, CallNext delay, CallCheck lastAttempt ok]\<rparr> in
           if \<not> ok then (Some (Return res err'), s3)
           else
             (case select delay w3 of
                (TimerC, w4) \<Rightarrow>
                  (None, s3\<lparr>world := w4, trace := trace s3 @ [StartTimer delay]\<rparr>)
              | (DoneC, w4) \<Rightarrow>
                  (Some (Return res (ctx_Err w4)),
                   s3\<lparr>world := w4, trace := trace s3 @ [StartTimer delay]\<rparr>))))"

text \<open>Lines 45 to 58: the loop. It has no bound, so it need not return.\<close>

partial_function (option) retry_loop ::
  "('b, 'x, 'e) NextBackOff \<Rightarrow> ('r, 'x, 'e) RetryCheck \<Rightarrow> ('q, 'r, 'x, 'e) RoundTripper option \<Rightarrow>
   'q \<Rightarrow> nat \<Rightarrow> ('b, 'x, 'e) state \<Rightarrow> (('r, 'e) outcome \<times> ('b, 'x, 'e) state) option" where
  "retry_loop nb shouldRetry base req b s =
     (case attempt nb shouldRetry base req b s of
        (Some out, s') \<Rightarrow> Some (out, s')
      | (None, s') \<Rightarrow> retry_loop nb shouldRetry base req b s')"

text \<open>
  Lines 33 to 59. \<open>copy := *t.Backoff\<close> dereferences the pointer (a panic when it
  is \<open>nil\<close>; an address outside the heap does not occur in Go and is treated
  alike) and stores the value in a new variable, whose address \<open>b\<close> is new.
\<close>

definition RoundTrip ::
  "('b, 'x, 'e) NextBackOff \<Rightarrow> ('q, 'r, 'x, 'e) Transport \<Rightarrow> 'q \<Rightarrow> ('b, 'x, 'e) state \<Rightarrow>
   (('r, 'e) outcome \<times> ('b, 'x, 'e) state) option" where
  "RoundTrip nb t req s =
     (case Backoff t of
        None \<Rightarrow> Some (Panic, s)
      | Some p \<Rightarrow>
          if p < length (heap s) then
            (let copy = heap s ! p;
                 b = length (heap s);
                 s0 = s\<lparr>heap := heap s @ [copy]\<rparr>
             in retry_loop nb (shouldRetry_of t) (Transport t) req b s0)
          else Some (Panic, s))"

text \<open>
  A recogniser for the events of a call. Each pass contributes a base call, one
  delay from \<open>NextBackOff\<close> and one retry check whose \<open>lastAttempt\<close> says whether
  that delay was \<open>Stop\<close>; a timer for that same delay follows exactly when the
  check asked for a retry.
\<close>

fun attempts_ok :: "event list \<Rightarrow> bool" where
  "attempts_ok [] = True"
| "attempts_ok (CallBase # CallNext d # CallCheck l ok # es) =
     (l = (d = Stop) \<and>
      (case es of
         [] \<Rightarrow> \<not> ok
       | StartTimer d' # es' \<Rightarrow> ok \<and> d' = d \<and> attempts_ok es'
       | _ \<Rightarrow> False))"
| "attempts_ok _ = False"

section \<open>Package json: request options and a decoding round tripper\<close>

subsection \<open>The option Query\<close>








subsection \<open>The decoding Transport\<close>

text \<open>
  A response body is a stream: the bytes that reading it will still hand out,
  and the error with which reading ends (\<open>None\<close> for a plain end of file).
  \<open>ReadAll\<close> returns both and leaves the stream drained.
\<close>

type_synonym byte = "8 word"

record 'e Body =
  unread :: "byte list"
  read_error :: "'e option"

definition ReadAll :: "'e Body \<Rightarrow> (byte list \<times> 'e option) \<times> 'e Body" where
  "ReadAll body = ((unread body, read_error body), body\<lparr>unread := []\<rparr>)"

definition NewBuffer :: "byte list \<Rightarrow> 'e Body" where
  "NewBuffer buf = \<lparr>unread = buf, read_error = None\<rparr>"

record 'e Response =
  StatusCode :: int
  Header :: "string \<rightharpoonup> string list"
  Body :: "'e Body"

text \<open>\<open>Header.Get\<close>: the first value of the key, the empty string without one.\<close>

definition Header_Get :: "(string \<rightharpoonup> string list) \<Rightarrow> string \<Rightarrow> string" where
  "Header_Get h k = (case h k of None \<Rightarrow> [] | Some [] \<Rightarrow> [] | Some (v # _) \<Rightarrow> v)"

text \<open>
  The state around a call: \<open>memory\<close> is what \<open>Result\<close> points into,
  \<open>released\<close> lists the bodies on which \<open>Close\<close> has been called, \<open>net\<close> is the
  state of the base round tripper.
\<close>

record ('m, 'x, 'e) jstate =
  memory :: 'm
  released :: "'e Body list"
  net :: 'x

type_synonym ('q, 'm, 'x, 'e) json_RoundTripper =
  "'q \<Rightarrow> ('m, 'x, 'e) jstate \<Rightarrow> ('e Response option \<times> 'e option) \<times> ('m, 'x, 'e) jstate"

record ('p, 'q, 'm, 'x, 'e) json_Transport =
  Result :: 'p
  Transport :: "('q, 'm, 'x, 'e) json_RoundTripper option"

text \<open>
  Lines 257 to 277. \<open>ParseMediaType\<close> (of package \<open>mime\<close>, its map of parameters
  left out) and \<open>Unmarshal\<close> (of \<open>encoding/json\<close>, which writes through the
  pointer \<open>Result\<close> into memory) are parameters. The deferred \<open>Close\<close> acts on
  the body that the base round tripper returned, after \<open>ReadAll\<close> drained it.
  A \<open>nil\<close> response without an error makes \<open>res.Header\<close> panic.
\<close>

definition json_RoundTrip ::
  "(string \<Rightarrow> string \<times> 'e option) \<Rightarrow> (byte list \<Rightarrow> 'p \<Rightarrow> 'm \<Rightarrow> 'e option \<times> 'm) \<Rightarrow>
   ('p, 'q, 'm, 'x, 'e) json_Transport \<Rightarrow> 'q \<Rightarrow> ('m, 'x, 'e) jstate \<Rightarrow>
   ('e Response, 'e) outcome \<times> ('m, 'x, 'e) jstate" where
  "json_RoundTrip ParseMediaType Unmarshal t req s =
     (case json_Transport.Transport t of
        None \<Rightarrow> (Panic, s)
      | Some rt \<Rightarrow>
          (case rt req s of ((res, err), s1) \<Rightarrow>
           if err \<noteq> None then (Return res err, s1)
           else
             (case res of
                None \<Rightarrow> (Panic, s1)
              | Some r \<Rightarrow>
                  (case ParseMediaType (Header_Get (Header r) ''Content-Type'') of (ct, perr) \<Rightarrow>
                   if ct \<noteq> ''application/json'' \<or> perr \<noteq> None then (Return (Some r) None, s1)
                   else
                     (case ReadAll (Body r) of ((buf, rerr), drained) \<Rightarrow>
                      let r' = r\<lparr>Body := NewBuffer buf\<rparr>;
                          s2 = s1\<lparr>released := released s1 @ [drained]\<rparr>
                      in if rerr \<noteq> None then (Return (Some r') rerr, s2)
                         else
                           (case Unmarshal buf (Result t) (memory s1) of (uerr, m') \<Rightarrow>
                              (Return (Some r') uerr, s2\<lparr>memory := m'\<rparr>)))))))"

section \<open>Concrete collaborators and inputs\<close>

text \<open>
  Small stand-ins for the parts the packages take from outside, used to run
  the definitions on concrete inputs. Requests are URLs, a response of the
  retry examples is its status code, errors are their messages, and the
  collaborators' state counts the calls of the base round tripper.
\<close>

definition failing_base :: "(string, nat, nat, string) RoundTripper" where
  "failing_base req w = ((None, Some ''dial tcp: lookup failed''), w\<lparr>env := Suc (env w)\<rparr>)"

definition ok_base :: "(string, nat, nat, string) RoundTripper" where
  "ok_base req w = ((Some 200, None), w\<lparr>env := Suc (env w)\<rparr>)"

text \<open>
  A backoff that hands out a fixed list of delays and then \<open>Stop\<close>, as an
  \<open>ExponentialBackOff\<close> does once its \<open>MaxElapsedTime\<close> has passed.
\<close>

fun fixed_schedule :: "(Duration list, nat, string) NextBackOff" where
  "fixed_schedule [] w = ((Stop, []), w)"
| "fixed_schedule (d # ds) w = ((d, ds), w)"

text \<open>A custom retry check that asks for a second attempt whatever \<open>lastAttempt\<close> says.\<close>

definition insistent_check :: "(nat, nat, string) RetryCheck" where
  "insistent_check res err lastAttempt w = ((err, env w < 2), w)"

definition quiet_world :: "(nat, string) world" where
  "quiet_world = \<lparr>now = 0, done_at = None, ctx_error = ''context canceled'',
                   picks = (\<lambda>n. False), env = 0\<rparr>"

text \<open>A request context that is cancelled 5 ns after the call begins.\<close>

definition cancel_soon_world :: "(nat, string) world" where
  "cancel_soon_world = quiet_world\<lparr>done_at := Some 5\<rparr>"

text \<open>
  A request context that was cancelled before the call began; the first
  \<open>select\<close> with two ready cases takes the timer, the later ones \<open>Done\<close>.
\<close>

definition cancelled_world :: "(nat, string) world" where
  "cancelled_world = quiet_world\<lparr>now := 10, done_at := Some 3, picks := (\<lambda>n. n = 0)\<rparr>"

definition state_of :: "Duration list \<Rightarrow> (nat, string) world \<Rightarrow> (Duration list, nat, string) state" where
  "state_of schedule w = \<lparr>heap = [schedule], world = w, trace = []\<rparr>"

definition default_failing :: "(string, nat, nat, string) Transport" where
  "default_failing = \<lparr>Backoff = Some 0, ShouldRetry = None, Transport = Some failing_base\<rparr>"

definition default_ok :: "(string, nat, nat, string) Transport" where
  "default_ok = \<lparr>Backoff = Some 0, ShouldRetry = None, Transport = Some ok_base\<rparr>"

definition insistent_failing :: "(string, nat, nat, string) Transport" where
  "insistent_failing =
     \<lparr>Backoff = Some 0, ShouldRetry = Some insistent_check, Transport = Some failing_base\<rparr>"

text \<open>Projections of the result of a call: the events and the heap.\<close>

definition events_of :: "(('r, 'e) outcome \<times> ('b, 'x, 'e) state) option \<Rightarrow> event list option" where
  "events_of r = map_option (\<lambda>(out, s). trace s) r"

definition heap_of :: "(('r, 'e) outcome \<times> ('b, 'x, 'e) state) option \<Rightarrow> 'b list option" where
  "heap_of r = map_option (\<lambda>(out, s). heap s) r"

text \<open>
  For the json examples: a media type parser that accepts a bare type and
  rejects the empty string, and a decoder that stores the bytes it is given
  and rejects an empty input. The memory is the list of bytes last decoded.
\<close>

definition bare_media_type :: "string \<Rightarrow> string \<times> string option" where
  "bare_media_type v = (if v = [] then ([], Some ''mime: no media type'') else (v, None))"

definition store_bytes :: "byte list \<Rightarrow> unit \<Rightarrow> byte list \<Rightarrow> string option \<times> byte list" where
  "store_bytes buf p m =
     (if buf = [] then (Some ''unexpected end of JSON input'', m) else (None, buf))"

definition json_response :: "string Body \<Rightarrow> string Response" where
  "json_response body =
     \<lparr>StatusCode = 200, Header = [''Content-Type'' \<mapsto> [''application/json'']], Body = body\<rparr>"

definition text_response :: "string Body \<Rightarrow> string Response" where
  "text_response body =
     \<lparr>StatusCode = 200, Header = [''Content-Type'' \<mapsto> [''text/plain'']], Body = body\<rparr>"

text \<open>The body \<open>{}\<close>, and a body whose connection breaks after the first byte.\<close>

definition whole_body :: "string Body" where
  "whole_body = \<lparr>unread = [123, 125], read_error = None\<rparr>"

definition broken_body :: "string Body" where
  "broken_body = \<lparr>unread = [123], read_error = Some ''unexpected EOF''\<rparr>"

definition serving :: "string Response \<Rightarrow> (string, byte list, nat, string) json_RoundTripper" where
  "serving r req s = ((Some r, None), s\<lparr>net := Suc (net s)\<rparr>)"

definition decoding :: "string Response \<Rightarrow> (unit, string, byte list, nat, string) json_Transport" where
  "decoding r = \<lparr>Result = (), Transport = Some (serving r)\<rparr>"

definition fresh :: "(byte list, nat, string) jstate" where
  "fresh = \<lparr>memory = [], released = [], net = 0\<rparr>"










section \<open>Properties of the retrying round tripper\<close>

subsection \<open>The loop, one pass at a time\<close>

text \<open>
  A pass that leaves the function ends the loop, a pass that does not is
  followed by the loop from the state it reached.
\<close>

lemma loop_exit:
  "attempt nb chk base req b s = (Some out, s') \<Longrightarrow>
   retry_loop nb chk base req b s = Some (out, s')"
  by (subst retry_loop.simps) simp

lemma loop_again:
  "attempt nb chk base req b s = (None, s') \<Longrightarrow>
   retry_loop nb chk base req b s = retry_loop nb chk base req b s'"
  by (subst retry_loop.simps) simp

text \<open>
  A pass allocates nothing and leaves the objects below the address \<open>b\<close> as
  they were; so does a loop that returns.
\<close>

lemma attempt_heap:
  "attempt nb chk base req b s = (r, s') \<Longrightarrow>
   length (heap s') = length (heap s) \<and> take b (heap s') = take b (heap s)"
  by (auto simp: attempt_def Let_def split: option.splits prod.splits if_splits fired.splits)

lemma loop_heap:
  assumes run: "retry_loop nb chk base req b s = Some y"
  shows "length (heap (snd y)) = length (heap s) \<and> take b (heap (snd y)) = take b (heap s)"
proof (induct rule: retry_loop.raw_induct [OF _ run])
  case (1 loop nb chk base req b s y)
  show ?case
  proof (cases "attempt nb chk base req b s")
    case (Pair r s1)
    note h = attempt_heap[OF Pair]
    show ?thesis
    proof (cases r)
      case None
      with 1 Pair h show ?thesis by simp
    next
      case (Some a)
      with 1 Pair h show ?thesis by auto
    qed
  qed
qed

text \<open>
  The events of one pass, and of a whole loop that returns.
\<close>

lemma attempt_trace:
  assumes a: "attempt nb chk base req b s = (r, s')" and b: "b < length (heap s)"
  shows "\<exists>tr. trace s' = trace s @ tr \<and>
           (case r of Some out \<Rightarrow> attempts_ok tr
                    | None \<Rightarrow> (\<forall>es. attempts_ok (tr @ es) = attempts_ok es))"
proof (cases base)
  case None
  with a have "r = Some Panic" "s' = s" by (simp_all add: attempt_def)
  then show ?thesis by simp
next
  case (Some rt)
  obtain res err w1 where rt: "rt req (world s) = ((res, err), w1)"
    by (metis prod.exhaust)
  obtain delay bo w2 where nb: "nb (heap s ! b) w1 = ((delay, bo), w2)"
    by (metis prod.exhaust)
  obtain err' ok w3 where chk: "chk res err (delay = Stop) w2 = ((err', ok), w3)"
    by (metis prod.exhaust)
  obtain f w4 where sel: "select delay w3 = (f, w4)"
    by (metis prod.exhaust)
  show ?thesis
  proof (cases ok)
    case False
    with a b Some rt nb chk
    have "r = Some (Return res err')"
      "trace s' = trace s @ [CallBase, CallNext delay, CallCheck (delay = Stop) False]"
      by (auto simp: attempt_def Let_def)
    then show ?thesis by simp
  next
    case True
    with a b Some rt nb chk sel
    have r: "r = (case f of TimerC \<Rightarrow> None | DoneC \<Rightarrow> Some (Return res (ctx_Err w4)))"
      and t: "trace s' = trace s @ [CallBase, CallNext delay, CallCheck (delay = Stop) True, StartTimer delay]"
      by (auto simp: attempt_def Let_def split: fired.splits)
    show ?thesis
    proof (cases f)
      case TimerC
      with r t show ?thesis by simp
    next
      case DoneC
      with r t show ?thesis by simp
    qed
  qed
qed

lemma loop_trace:
  assumes run: "retry_loop nb chk base req b s = Some y"
  shows "b < length (heap s) \<longrightarrow> (\<exists>tr. trace (snd y) = trace s @ tr \<and> attempts_ok tr)"
proof (induct rule: retry_loop.raw_induct [OF _ run])
  case (1 loop nb chk base req b s y)
  show ?case
  proof
    assume b: "b < length (heap s)"
    obtain r s1 where a: "attempt nb chk base req b s = (r, s1)"
      by (cases "attempt nb chk base req b s")
    from attempt_trace [OF a b] obtain tr where
      tr: "trace s1 = trace s @ tr"
        "case r of Some out \<Rightarrow> attempts_ok tr | None \<Rightarrow> (\<forall>es. attempts_ok (tr @ es) = attempts_ok es)"
      by blast
    from attempt_heap [OF a] b have b1: "b < length (heap s1)" by simp
    show "\<exists>tr. trace (snd y) = trace s @ tr \<and> attempts_ok tr"
    proof (cases r)
      case None
      with 1(2) a have "loop nb chk base req b s1 = Some y" by simp
      from 1(1) [OF this] b1 obtain tr' where "trace (snd y) = trace s1 @ tr'" "attempts_ok tr'"
        by blast
      with tr None have "trace (snd y) = trace s @ (tr @ tr') \<and> attempts_ok (tr @ tr')" by simp
      then show ?thesis by blast
    next
      case (Some out)
      with 1(2) a have "y = (out, s1)" by simp
      with tr Some show ?thesis by auto
    qed
  qed
qed

text \<open>
  When the signal fires before a timer of positive duration expires, the
  \<open>select\<close> takes the \<open>Done\<close> case, at the instant the signal fires or at once
  when it has fired before.
\<close>

lemma select_done:
  assumes "done_at w = Some c" and "c < now w + sint delay" and "0 < sint delay"
  shows "select delay w = (DoneC, w\<lparr>now := max c (now w)\<rparr>)"
  using assms by (simp add: select_def Let_def max_def)

text \<open>
  A timer without a duration expires at once; when the signal has not fired,
  the timer case is the only one that can proceed.
\<close>

lemma select_timer:
  assumes "\<not> ctx_Done w" and "sint delay \<le> 0"
  shows "select delay w = (TimerC, w)"
  using assms by (auto simp: select_def ctx_Done_def Let_def max_def split: option.splits)

text \<open>
  Every pass begins with a call of the base round tripper, and so does every
  loop that returns.
\<close>

lemma attempt_base_first:
  assumes "attempt nb chk (Some rt) req b s = (r, s1)"
  shows "\<exists>tr. trace s1 = trace s @ CallBase # tr"
proof -
  obtain res err w1 where rt: "rt req (world s) = ((res, err), w1)"
    by (metis prod.exhaust)
  obtain delay bo w2 where nb: "nb (heap s ! b) w1 = ((delay, bo), w2)"
    by (metis prod.exhaust)
  obtain err' ok w3 where chk: "chk res err (delay = Stop) w2 = ((err', ok), w3)"
    by (metis prod.exhaust)
  obtain f w4 where sel: "select delay w3 = (f, w4)"
    by (metis prod.exhaust)
  from assms rt nb chk sel show ?thesis
    by (cases "b < length (heap s)"; cases ok; cases f) (auto simp: attempt_def Let_def)
qed

lemma loop_base_first:
  assumes run: "retry_loop nb chk (Some rt) req b s = Some y" and b: "b < length (heap s)"
  shows "\<exists>tr. trace (snd y) = trace s @ CallBase # tr"
proof -
  obtain r s1 where a: "attempt nb chk (Some rt) req b s = (r, s1)"
    by (metis prod.exhaust)
  from attempt_base_first [OF a] obtain tr where tr: "trace s1 = trace s @ CallBase # tr"
    by blast
  show ?thesis
  proof (cases r)
    case (Some out)
    with a run have "y = (out, s1)" by (simp add: loop_exit)
    with tr show ?thesis by simp
  next
    case None
    with a run have run1: "retry_loop nb chk (Some rt) req b s1 = Some y"
      by (simp add: loop_again)
    from attempt_heap [OF a] b have "b < length (heap s1)" by simp
    with loop_trace [OF run1] obtain tr' where "trace (snd y) = trace s1 @ tr'" by blast
    with tr show ?thesis by simp
  qed
qed

subsection \<open>Runs on concrete inputs\<close>

lemmas demo_defs = state_of_def quiet_world_def cancel_soon_world_def cancelled_world_def
  default_failing_def default_ok_def insistent_failing_def failing_base_def ok_base_def
  insistent_check_def default_shouldRetry_def shouldRetry_of_def Stop_def

text \<open>
  An always failing base, the default check and a backoff with one delay of
  7 ns left: two attempts, the second one with \<open>lastAttempt\<close>.
\<close>

lemma demo_run:
  "RoundTrip fixed_schedule default_failing ''u'' (state_of [7] quiet_world) =
     Some (Return None (Some ''dial tcp: lookup failed''),
           \<lparr>heap = [[7], []], world = quiet_world\<lparr>now := 7, env := 2\<rparr>,
            trace = [CallBase, CallNext 7, CallCheck False True, StartTimer 7,
                     CallBase, CallNext Stop, CallCheck True False]\<rparr>)"
  apply (simp add: RoundTrip_def demo_defs Let_def)
  apply (subst retry_loop.simps)
  apply (simp add: attempt_def select_def demo_defs Let_def)
  apply (subst retry_loop.simps)
  apply (simp add: attempt_def select_def demo_defs Let_def)
  done

text \<open>
  The same base with an exhausted backoff and the check that insists on a
  second attempt.
\<close>

lemma insistent_run:
  "RoundTrip fixed_schedule insistent_failing ''u'' (state_of [] quiet_world) =
     Some (Return None (Some ''dial tcp: lookup failed''),
           \<lparr>heap = [[], []], world = quiet_world\<lparr>env := 2\<rparr>,
            trace = [CallBase, CallNext Stop, CallCheck True True, StartTimer Stop,
                     CallBase, CallNext Stop, CallCheck True False]\<rparr>)"
  apply (simp add: RoundTrip_def demo_defs Let_def)
  apply (subst retry_loop.simps)
  apply (simp add: attempt_def select_def demo_defs Let_def)
  apply (subst retry_loop.simps)
  apply (simp add: attempt_def select_def demo_defs Let_def)
  done

text \<open>
  The loop of that call, started on the configured backoff itself.
\<close>

lemma insistent_loop:
  "retry_loop fixed_schedule insistent_check (Some failing_base) ''u'' 0 (state_of [] quiet_world) =
     Some (Return None (Some ''dial tcp: lookup failed''),
           \<lparr>heap = [[]], world = quiet_world\<lparr>env := 2\<rparr>,
            trace = [CallBase, CallNext Stop, CallCheck True True, StartTimer Stop,
                     CallBase, CallNext Stop, CallCheck True False]\<rparr>)"
  apply (subst retry_loop.simps)
  apply (simp add: attempt_def select_def demo_defs Let_def)
  apply (subst retry_loop.simps)
  apply (simp add: attempt_def select_def demo_defs Let_def)
  done

text \<open>
  The same base with the default check, a backoff that hands out delays of
  zero, and a request whose context was cancelled before the call.
\<close>

lemma cancelled_run:
  "RoundTrip fixed_schedule default_failing ''u'' (state_of [0, 0] cancelled_world) =
     Some (Return None (Some ''context canceled''),
           \<lparr>heap = [[0, 0], []], world = quiet_world\<lparr>now := 10, done_at := Some 3, env := 2\<rparr>,
            trace = [CallBase, CallNext 0, CallCheck False True, StartTimer 0,
                     CallBase, CallNext 0, CallCheck False True, StartTimer 0]\<rparr>)"
  apply (simp add: RoundTrip_def demo_defs Let_def)
  apply (subst retry_loop.simps)
  apply (simp add: attempt_def select_def demo_defs Let_def)
  apply (subst retry_loop.simps)
  apply (simp add: attempt_def select_def demo_defs Let_def ctx_Err_def ctx_Done_def)
  done

subsection \<open>Leaving the loop on the retry check\<close>

text \<open>
  C1, as amended. On every attempt on which the retry check answers
  \<open>shouldRetry = false\<close>, the call returns at once the response of that attempt
  and the error the check reported: the base round tripper is not invoked
  again and no timer is started. When the backoff returns \<open>Stop\<close> the check is
  invoked with \<open>lastAttempt = true\<close>, and the default check then always answers
  \<open>false\<close>, so that its answer is final. When a custom check answers \<open>true\<close> to
  \<open>lastAttempt = true\<close> and the cancellation signal has not fired, its answer is
  not final: a timer of \<open>Stop\<close> is started, the loop goes round again, and every
  result of the call comes after a further call of the base round tripper.
\<close>

theorem check_false_is_final:
  assumes "rt req (world s) = ((res, err), w1)"
    and "b < length (heap s)"
    and "nb (heap s ! b) w1 = ((delay, bo), w2)"
  shows "(chk res err (delay = Stop) w2 = ((err', False), w3) \<longrightarrow>
          retry_loop nb chk (Some rt) req b s =
            Some (Return res err',
                  s\<lparr>heap := (heap s)[b := bo], world := w3,
                    trace := trace s @ [CallBase, CallNext delay, CallCheck (delay = Stop) False]\<rparr>)) \<and>
         (delay = Stop \<longrightarrow>
          retry_loop nb default_shouldRetry (Some rt) req b s =
            Some (Return res err,
                  s\<lparr>heap := (heap s)[b := bo], world := w2,
                    trace := trace s @ [CallBase, CallNext delay, CallCheck True False]\<rparr>)) \<and>
         (delay = Stop \<and> chk res err True w2 = ((err', True), w3) \<and> \<not> ctx_Done w3 \<longrightarrow>
          retry_loop nb chk (Some rt) req b s =
            retry_loop nb chk (Some rt) req b
              (s\<lparr>heap := (heap s)[b := bo], world := w3,
                 trace := trace s @ [CallBase, CallNext Stop, CallCheck True True, StartTimer Stop]\<rparr>) \<and>
          (\<forall>y. retry_loop nb chk (Some rt) req b s = Some y \<longrightarrow>
             (\<exists>tr. trace (snd y) =
                trace s @ [CallBase, CallNext Stop, CallCheck True True, StartTimer Stop] @
                CallBase # tr)))"
proof (intro conjI impI)
  assume c: "chk res err (delay = Stop) w2 = ((err', False), w3)"
  show "retry_loop nb chk (Some rt) req b s =
            Some (Return res err',
                  s\<lparr>heap := (heap s)[b := bo], world := w3,
                    trace := trace s @ [CallBase, CallNext delay, CallCheck (delay = Stop) False]\<rparr>)"
    by (rule loop_exit) (use assms c in \<open>simp add: attempt_def Let_def\<close>)
next
  assume d: "delay = Stop"
  have c: "default_shouldRetry res err (delay = Stop) w2 = ((err, False), w2)"
    using d by (simp add: default_shouldRetry_def)
  show "retry_loop nb default_shouldRetry (Some rt) req b s =
            Some (Return res err,
                  s\<lparr>heap := (heap s)[b := bo], world := w2,
                    trace := trace s @ [CallBase, CallNext delay, CallCheck True False]\<rparr>)"
    by (rule loop_exit) (use assms c d in \<open>simp add: attempt_def Let_def\<close>)
next
  assume h: "delay = Stop \<and> chk res err True w2 = ((err', True), w3) \<and> \<not> ctx_Done w3"
  let ?s' = "s\<lparr>heap := (heap s)[b := bo], world := w3,
                 trace := trace s @ [CallBase, CallNext Stop, CallCheck True True, StartTimer Stop]\<rparr>"
  have sel: "select Stop w3 = (TimerC, w3)"
    using h by (intro select_timer) (simp_all add: Stop_def)
  have a: "attempt nb chk (Some rt) req b s = (None, ?s')"
    using assms h sel by (simp add: attempt_def Let_def)
  show again: "retry_loop nb chk (Some rt) req b s = retry_loop nb chk (Some rt) req b ?s'"
    by (rule loop_again) (rule a)
  show "\<forall>y. retry_loop nb chk (Some rt) req b s = Some y \<longrightarrow>
             (\<exists>tr. trace (snd y) =
                trace s @ [CallBase, CallNext Stop, CallCheck True True, StartTimer Stop] @
                CallBase # tr)"
  proof (intro allI impI)
    fix y
    assume "retry_loop nb chk (Some rt) req b s = Some y"
    with again have run: "retry_loop nb chk (Some rt) req b ?s' = Some y" by simp
    have "b < length (heap ?s')" using assms(2) by simp
    from loop_base_first [OF run this]
    show "\<exists>tr. trace (snd y) =
                trace s @ [CallBase, CallNext Stop, CallCheck True True, StartTimer Stop] @
                CallBase # tr"
      by simp
  qed
qed

text \<open>
  The theorem at an exhausted backoff, with the default check and with the
  check that insists on a second attempt.
\<close>

theorem check_false_is_final_witness:
  "default_shouldRetry None (Some ''dial tcp: lookup failed'') (Stop = Stop) (quiet_world\<lparr>env := 1\<rparr>) =
     ((Some ''dial tcp: lookup failed'', False), quiet_world\<lparr>env := 1\<rparr>) \<and>
   retry_loop fixed_schedule default_shouldRetry (Some failing_base) ''u'' 0 (state_of [] quiet_world) =
     Some (Return None (Some ''dial tcp: lookup failed''),
           \<lparr>heap = [[]], world = quiet_world\<lparr>env := 1\<rparr>,
            trace = [CallBase, CallNext Stop, CallCheck True False]\<rparr>) \<and>
   insistent_check None (Some ''dial tcp: lookup failed'') True (quiet_world\<lparr>env := 1\<rparr>) =
     ((Some ''dial tcp: lookup failed'', True), quiet_world\<lparr>env := 1\<rparr>) \<and>
   \<not> ctx_Done (quiet_world\<lparr>env := 1\<rparr>) \<and>
   retry_loop fixed_schedule insistent_check (Some failing_base) ''u'' 0 (state_of [] quiet_world) =
     retry_loop fixed_schedule insistent_check (Some failing_base) ''u'' 0
       \<lparr>heap = [[]], world = quiet_world\<lparr>env := 1\<rparr>,
        trace = [CallBase, CallNext Stop, CallCheck True True, StartTimer Stop]\<rparr> \<and>
   (\<exists>tr. [CallBase, CallNext Stop, CallCheck True True, StartTimer Stop,
          CallBase, CallNext Stop, CallCheck True False] =
         [CallBase, CallNext Stop, CallCheck True True, StartTimer Stop] @ CallBase # tr)"
  using check_false_is_final [of failing_base "''u''" "state_of [] quiet_world" None
      "Some ''dial tcp: lookup failed''" "quiet_world\<lparr>env := 1\<rparr>" 0 fixed_schedule Stop "[]"
      "quiet_world\<lparr>env := 1\<rparr>" default_shouldRetry "Some ''dial tcp: lookup failed''"
      "quiet_world\<lparr>env := 1\<rparr>"]
    check_false_is_final [of failing_base "''u''" "state_of [] quiet_world" None
      "Some ''dial tcp: lookup failed''" "quiet_world\<lparr>env := 1\<rparr>" 0 fixed_schedule Stop "[]"
      "quiet_world\<lparr>env := 1\<rparr>" insistent_check "Some ''dial tcp: lookup failed''"
      "quiet_world\<lparr>env := 1\<rparr>"]
    insistent_loop
  by (simp add: demo_defs ctx_Done_def)

text \<open>
  C1 as stated fails: with an exhausted backoff, a custom check that answers
  \<open>shouldRetry = true\<close> to \<open>lastAttempt = true\<close> is obeyed. A timer of \<open>Stop\<close> is
  started, the base round tripper is invoked a second time, and the check is
  invoked with \<open>lastAttempt = true\<close> once more.
\<close>

theorem lastAttempt_answer_not_final:
  "events_of (RoundTrip fixed_schedule insistent_failing ''u'' (state_of [] quiet_world)) =
     Some [CallBase, CallNext Stop, CallCheck True True, StartTimer Stop,
           CallBase, CallNext Stop, CallCheck True False]"
  by (simp add: insistent_run events_of_def)

subsection \<open>The default retry check\<close>

text \<open>
  C2. Without a custom \<open>ShouldRetry\<close>, the check used by \<open>RoundTrip\<close> returns
  the pair of \<open>err\<close> itself and of whether \<open>err\<close> is not \<open>nil\<close> and \<open>lastAttempt\<close> is
  false, and leaves the environment alone.
\<close>

theorem default_check:
  "ShouldRetry t = None \<Longrightarrow>
   shouldRetry_of t res err lastAttempt w = ((err, err \<noteq> None \<and> \<not> lastAttempt), w)"
  by (simp add: shouldRetry_of_def default_shouldRetry_def)

text \<open>
  The theorem at a failed attempt that is not the last.
\<close>

theorem default_check_witness:
  "ShouldRetry default_failing = None \<and>
   shouldRetry_of default_failing None (Some ''timeout'') False quiet_world =
     ((Some ''timeout'', True), quiet_world)"
  using default_check [of default_failing None "Some ''timeout''" False quiet_world]
  by (simp add: default_failing_def)

subsection \<open>One delay and one check for each attempt\<close>

text \<open>
  C3. In every call that returns, the events the call adds are a sequence of
  attempts: after each base call the backoff is asked for exactly one delay,
  then the retry check is invoked once, and its \<open>lastAttempt\<close> is true if and
  only if that delay is \<open>Stop\<close>.
\<close>

theorem lastAttempt_iff_Stop:
  assumes "RoundTrip nb t req s = Some (out, s')"
  shows "take (length (trace s)) (trace s') = trace s \<and>
         attempts_ok (drop (length (trace s)) (trace s'))"
proof (cases "Backoff t")
  case None
  with assms show ?thesis by (simp add: RoundTrip_def)
next
  case (Some p)
  show ?thesis
  proof (cases "p < length (heap s)")
    case False
    with Some assms show ?thesis by (simp add: RoundTrip_def)
  next
    case True
    let ?s0 = "s\<lparr>heap := heap s @ [heap s ! p]\<rparr>"
    from True Some assms
    have run: "retry_loop nb (shouldRetry_of t) (Transport.Transport t) req (length (heap s)) ?s0 = Some (out, s')"
      by (simp add: RoundTrip_def Let_def)
    from loop_trace [OF run] obtain tr where "trace s' = trace s @ tr" "attempts_ok tr"
      by auto
    then show ?thesis by simp
  qed
qed

text \<open>
  The theorem at the run of two attempts.
\<close>

theorem lastAttempt_iff_Stop_witness:
  "RoundTrip fixed_schedule default_failing ''u'' (state_of [7] quiet_world) =
     Some (Return None (Some ''dial tcp: lookup failed''),
           \<lparr>heap = [[7], []], world = quiet_world\<lparr>now := 7, env := 2\<rparr>,
            trace = [CallBase, CallNext 7, CallCheck False True, StartTimer 7,
                     CallBase, CallNext Stop, CallCheck True False]\<rparr>) \<and>
   attempts_ok [CallBase, CallNext 7, CallCheck False True, StartTimer 7,
                CallBase, CallNext Stop, CallCheck True False]"
  using lastAttempt_iff_Stop [OF demo_run] demo_run by (simp add: state_of_def)

subsection \<open>Cancellation\<close>

text \<open>
  C4. When the retry check has asked for a retry and the cancellation signal
  fires during the wait, after the wait began and before the timer expires,
  the call returns the response of this attempt and the error of the context.
  It returns at the instant \<open>c\<close> of the signal, not at the expiry of the timer,
  and no further event follows the start of the timer.
\<close>

theorem cancel_during_wait:
  assumes "rt req (world s) = ((res, err), w1)"
    and "b < length (heap s)"
    and "nb (heap s ! b) w1 = ((delay, bo), w2)"
    and "chk res err (delay = Stop) w2 = ((err', True), w3)"
    and "done_at w3 = Some c"
    and "now w3 < c"
    and "c < now w3 + sint delay"
  shows "retry_loop nb chk (Some rt) req b s =
     Some (Return res (Some (ctx_error w3)),
           s\<lparr>heap := (heap s)[b := bo], world := w3\<lparr>now := c\<rparr>,
             trace := trace s @ [CallBase, CallNext delay, CallCheck (delay = Stop) True,
                                 StartTimer delay]\<rparr>)"
proof -
  have pos: "0 < sint delay" using assms(6,7) by arith
  have sel: "select delay w3 = (DoneC, w3\<lparr>now := c\<rparr>)"
    using select_done [OF assms(5) assms(7) pos] assms(6) by (simp add: max_def)
  have "ctx_Err (w3\<lparr>now := c\<rparr>) = Some (ctx_error w3)"
    using assms(5) by (simp add: ctx_Err_def ctx_Done_def)
  with assms(1-4) sel show ?thesis
    by (intro loop_exit) (simp add: attempt_def Let_def)
qed

text \<open>
  The theorem at a delay of 100 ns and a signal that fires after 5 ns.
\<close>

theorem cancel_during_wait_witness:
  "done_at (cancel_soon_world\<lparr>env := 1\<rparr>) = Some 5 \<and>
   now (cancel_soon_world\<lparr>env := 1\<rparr>) < 5 \<and>
   5 < now (cancel_soon_world\<lparr>env := 1\<rparr>) + sint (100 :: Duration) \<and>
   retry_loop fixed_schedule default_shouldRetry (Some failing_base) ''u'' 0
       (state_of [100] cancel_soon_world) =
     Some (Return None (Some ''context canceled''),
           \<lparr>heap = [[]], world = cancel_soon_world\<lparr>now := 5, env := 1\<rparr>,
            trace = [CallBase, CallNext 100, CallCheck False True, StartTimer 100]\<rparr>)"
  using cancel_during_wait [of failing_base "''u''" "state_of [100] cancel_soon_world" None
      "Some ''dial tcp: lookup failed''" "cancel_soon_world\<lparr>env := 1\<rparr>" 0 fixed_schedule 100 "[]"
      "cancel_soon_world\<lparr>env := 1\<rparr>" default_shouldRetry "Some ''dial tcp: lookup failed''"
      "cancel_soon_world\<lparr>env := 1\<rparr>" 5]
  by (simp add: demo_defs)

text \<open>
  C5, as amended. When the cancellation signal has fired by the time the
  retry check asks for a retry and the delay is positive, so that the timer
  cannot have expired when the \<open>select\<close> runs, the call returns the response of
  this attempt and the error of the context without waiting, and the base
  round tripper is not invoked again.
\<close>

theorem cancelled_before_wait:
  assumes "rt req (world s) = ((res, err), w1)"
    and "b < length (heap s)"
    and "nb (heap s ! b) w1 = ((delay, bo), w2)"
    and "chk res err (delay = Stop) w2 = ((err', True), w3)"
    and "ctx_Done w3"
    and "0 < sint delay"
  shows "retry_loop nb chk (Some rt) req b s =
     Some (Return res (Some (ctx_error w3)),
           s\<lparr>heap := (heap s)[b := bo], world := w3,
             trace := trace s @ [CallBase, CallNext delay, CallCheck (delay = Stop) True,
                                 StartTimer delay]\<rparr>)"
proof -
  from assms(5) obtain c where c: "done_at w3 = Some c" "c \<le> now w3"
    by (auto simp: ctx_Done_def split: option.splits)
  have sel: "select delay w3 = (DoneC, w3)"
    using select_done [OF c(1) _ assms(6)] c(2) assms(6) by (simp add: max_def)
  have "ctx_Err w3 = Some (ctx_error w3)"
    using assms(5) by (simp add: ctx_Err_def)
  with assms(1-4) sel show ?thesis
    by (intro loop_exit) (simp add: attempt_def Let_def)
qed

text \<open>
  The theorem at a delay of 100 ns and a context cancelled before the call.
\<close>

theorem cancelled_before_wait_witness:
  "ctx_Done (cancelled_world\<lparr>env := 1\<rparr>) \<and> 0 < sint (100 :: Duration) \<and>
   retry_loop fixed_schedule default_shouldRetry (Some failing_base) ''u'' 0
       (state_of [100] cancelled_world) =
     Some (Return None (Some ''context canceled''),
           \<lparr>heap = [[]], world = cancelled_world\<lparr>env := 1\<rparr>,
            trace = [CallBase, CallNext 100, CallCheck False True, StartTimer 100]\<rparr>)"
  using cancelled_before_wait [of failing_base "''u''" "state_of [100] cancelled_world" None
      "Some ''dial tcp: lookup failed''" "cancelled_world\<lparr>env := 1\<rparr>" 0 fixed_schedule 100 "[]"
      "cancelled_world\<lparr>env := 1\<rparr>" default_shouldRetry "Some ''dial tcp: lookup failed''"
      "cancelled_world\<lparr>env := 1\<rparr>"]
  by (simp add: demo_defs ctx_Done_def)

text \<open>
  C5 as stated fails: with a delay of zero both cases of the \<open>select\<close> can
  proceed, and when the timer case is chosen the base round tripper is invoked
  again although the signal had fired before the call began.
\<close>

theorem base_invoked_after_cancellation:
  "ctx_Done (world (state_of [0, 0] cancelled_world)) \<and>
   events_of (RoundTrip fixed_schedule default_failing ''u'' (state_of [0, 0] cancelled_world)) =
     Some [CallBase, CallNext 0, CallCheck False True, StartTimer 0,
           CallBase, CallNext 0, CallCheck False True, StartTimer 0]"
  by (simp add: cancelled_run events_of_def) (simp add: demo_defs ctx_Done_def)

subsection \<open>The configured backoff\<close>

text \<open>
  C6. A call that returns leaves every object that was in the heap before the
  call as it was, the configured backoff at \<open>p\<close> among them: the loop advances
  only the copy, which sits at a new address.
\<close>

theorem backoff_not_shared:
  assumes "RoundTrip nb t req s = Some (out, s')" and "Backoff t = Some p"
  shows "heap s' ! p = heap s ! p \<and> take (length (heap s)) (heap s') = heap s"
proof (cases "p < length (heap s)")
  case False
  with assms show ?thesis by (simp add: RoundTrip_def)
next
  case True
  let ?s0 = "s\<lparr>heap := heap s @ [heap s ! p]\<rparr>"
  from True assms
  have run: "retry_loop nb (shouldRetry_of t) (Transport.Transport t) req (length (heap s)) ?s0 = Some (out, s')"
    by (simp add: RoundTrip_def Let_def)
  from loop_heap [OF run] have t: "take (length (heap s)) (heap s') = heap s" by simp
  have "heap s' ! p = take (length (heap s)) (heap s') ! p" using True by simp
  with t show ?thesis by simp
qed

text \<open>
  The theorem at the run of two attempts: the configured backoff still holds
  its delay of 7 ns, the copy has used it up.
\<close>

theorem backoff_not_shared_witness:
  "heap_of (RoundTrip fixed_schedule default_failing ''u'' (state_of [7] quiet_world)) = Some [[7], []] \<and>
   Backoff default_failing = Some 0 \<and>
   [[7], [] :: Duration list] ! 0 = heap (state_of [7] quiet_world) ! 0"
  using backoff_not_shared [OF demo_run, of 0] demo_run
  by (simp add: heap_of_def default_failing_def state_of_def)

subsection \<open>Success on the first attempt\<close>

text \<open>
  C7. With the default check and a configured backoff, when the base round
  tripper answers the first call with a response and no error, \<open>RoundTrip\<close>
  returns that response and no error after this one base call.
\<close>

theorem identity_on_success:
  assumes "Backoff t = Some p"
    and "p < length (heap s)"
    and "ShouldRetry t = None"
    and "Transport.Transport t = Some rt"
    and "rt req (world s) = ((res, None), w1)"
    and "nb (heap s ! p) w1 = ((delay, bo), w2)"
  shows "RoundTrip nb t req s =
     Some (Return res None,
           s\<lparr>heap := heap s @ [bo], world := w2,
             trace := trace s @ [CallBase, CallNext delay, CallCheck (delay = Stop) False]\<rparr>)"
proof -
  let ?s0 = "s\<lparr>heap := heap s @ [heap s ! p]\<rparr>"
  have "attempt nb default_shouldRetry (Some rt) req (length (heap s)) ?s0 =
     (Some (Return res None),
           s\<lparr>heap := heap s @ [bo], world := w2,
             trace := trace s @ [CallBase, CallNext delay, CallCheck (delay = Stop) False]\<rparr>)"
    using assms by (simp add: attempt_def Let_def default_shouldRetry_def)
  from loop_exit [OF this] assms(1-4) show ?thesis
    by (simp add: RoundTrip_def Let_def shouldRetry_of_def)
qed

text \<open>
  The theorem at a base that answers with status 200.
\<close>

theorem identity_on_success_witness:
  "ok_base ''u'' quiet_world = ((Some 200, None), quiet_world\<lparr>env := 1\<rparr>) \<and>
   RoundTrip fixed_schedule default_ok ''u'' (state_of [7] quiet_world) =
     Some (Return (Some 200) None,
           \<lparr>heap = [[7], []], world = quiet_world\<lparr>env := 1\<rparr>,
            trace = [CallBase, CallNext 7, CallCheck False False]\<rparr>)"
  using identity_on_success [of default_ok 0 "state_of [7] quiet_world" ok_base "''u''" "Some 200"
      "quiet_world\<lparr>env := 1\<rparr>" fixed_schedule 7 "[]" "quiet_world\<lparr>env := 1\<rparr>"]
  by (simp add: demo_defs)

section \<open>Properties of package json\<close>

subsection \<open>Query\<close>














subsection \<open>The decoding Transport\<close>

lemmas json_defs = json_RoundTrip_def ReadAll_def NewBuffer_def Header_Get_def bare_media_type_def
  store_bytes_def json_response_def text_response_def whole_body_def broken_body_def serving_def
  decoding_def fresh_def

text \<open>
  C8, as amended. When the base round tripper returns a response and no
  error: if the media type of \<open>Content-Type\<close> parses to \<open>application/json\<close> and
  the body is read without error, the bytes of the body are decoded into
  \<open>Result\<close> and the error of the decoder is returned; if reading the body fails,
  the error of the read is returned and the memory is untouched; for every
  other content type, and when the media type does not parse, the response
  comes back as it was with no error, its body unread and the memory
  untouched.
\<close>

theorem content_type_gate:
  assumes "json_Transport.Transport t = Some rt"
    and "rt req s = ((Some r, None), s1)"
    and "ParseMediaType (Header_Get (Header r) ''Content-Type'') = (ct, perr)"
    and "Unmarshal (unread (Body r)) (Result t) (memory s1) = (uerr, m')"
  shows "(ct = ''application/json'' \<and> perr = None \<and> read_error (Body r) = None \<longrightarrow>
            json_RoundTrip ParseMediaType Unmarshal t req s =
              (Return (Some (r\<lparr>Body := NewBuffer (unread (Body r))\<rparr>)) uerr,
               s1\<lparr>released := released s1 @ [(Body r)\<lparr>unread := []\<rparr>], memory := m'\<rparr>)) \<and>
         (ct = ''application/json'' \<and> perr = None \<and> read_error (Body r) \<noteq> None \<longrightarrow>
            json_RoundTrip ParseMediaType Unmarshal t req s =
              (Return (Some (r\<lparr>Body := NewBuffer (unread (Body r))\<rparr>)) (read_error (Body r)),
               s1\<lparr>released := released s1 @ [(Body r)\<lparr>unread := []\<rparr>]\<rparr>)) \<and>
         (ct \<noteq> ''application/json'' \<or> perr \<noteq> None \<longrightarrow>
            json_RoundTrip ParseMediaType Unmarshal t req s = (Return (Some r) None, s1))"
  using assms by (auto simp: json_RoundTrip_def ReadAll_def Let_def)

text \<open>
  The theorem at a json response that reads well, at one that does not, and
  at a response of type \<open>text/plain\<close>.
\<close>

theorem content_type_gate_witness:
  "json_RoundTrip bare_media_type store_bytes (decoding (json_response whole_body)) ''u'' fresh =
     (Return (Some (json_response \<lparr>unread = [123, 125], read_error = None\<rparr>)) None,
      \<lparr>memory = [123, 125], released = [\<lparr>unread = [], read_error = None\<rparr>], net = 1\<rparr>) \<and>
   json_RoundTrip bare_media_type store_bytes (decoding (json_response broken_body)) ''u'' fresh =
     (Return (Some (json_response \<lparr>unread = [123], read_error = None\<rparr>)) (Some ''unexpected EOF''),
      \<lparr>memory = [], released = [\<lparr>unread = [], read_error = Some ''unexpected EOF''\<rparr>], net = 1\<rparr>) \<and>
   json_RoundTrip bare_media_type store_bytes (decoding (text_response whole_body)) ''u'' fresh =
     (Return (Some (text_response whole_body)) None, \<lparr>memory = [], released = [], net = 1\<rparr>)"
  using
    content_type_gate [of "decoding (json_response whole_body)" "serving (json_response whole_body)"
      "''u''" fresh "json_response whole_body" "fresh\<lparr>net := 1\<rparr>" bare_media_type
      "''application/json''" None store_bytes None "[123, 125]"]
    content_type_gate [of "decoding (json_response broken_body)" "serving (json_response broken_body)"
      "''u''" fresh "json_response broken_body" "fresh\<lparr>net := 1\<rparr>" bare_media_type
      "''application/json''" None store_bytes None "[123]"]
    content_type_gate [of "decoding (text_response whole_body)" "serving (text_response whole_body)"
      "''u''" fresh "text_response whole_body" "fresh\<lparr>net := 1\<rparr>" bare_media_type
      "''text/plain''" None store_bytes None "[123, 125]"]
  by (simp add: json_defs)

text \<open>
  C8 as stated fails: a response declared as \<open>application/json\<close> whose body
  breaks off while it is read is not decoded. The memory stays empty although
  the decoder would have stored the byte that was read.
\<close>

theorem read_failure_not_decoded:
  "json_RoundTrip bare_media_type store_bytes (decoding (json_response broken_body)) ''u'' fresh =
     (Return (Some (json_response \<lparr>unread = [123], read_error = None\<rparr>)) (Some ''unexpected EOF''),
      \<lparr>memory = [], released = [\<lparr>unread = [], read_error = Some ''unexpected EOF''\<rparr>], net = 1\<rparr>) \<and>
   store_bytes [123] () [] = (None, [123])"
  by (simp add: json_defs Let_def)



end
